theory Spec2Isabelle
  imports Main "HOL-Library.Word"
begin

section \<open>Custom exceptions on top of the stack unwinder (main.cpp)\<close>

text \<open>
  The program throws and catches its own exception objects by talking to the
  unwinder directly. This theory embeds the data structures of \<^verbatim>\<open>main.cpp\<close>
  (\<^verbatim>\<open>base_exception\<close>, \<^verbatim>\<open>wrapped_exception<T>\<close>, \<^verbatim>\<open>test_exception\<close>) and its
  functions (\<^verbatim>\<open>my_throw\<close>, the cleanup lambda, \<^verbatim>\<open>my_catch\<close>) as functions on an
  explicit program state.

  Conventions.
  \<^item> A pointer is a 64-bit word; \<open>0\<close> is the null pointer. Pointer arithmetic
    is the arithmetic of the source, in the order the source performs it, and
    wraps around at \<open>2 ^ 64\<close> as the machine's does.
  \<^item> The store maps an address to the object that starts there. Bytes and field
    offsets are not modelled: the unwinding header of an envelope is found at
    the address of the envelope, so \<^verbatim>\<open>&wrapped->header\<close> is \<^verbatim>\<open>wrapped\<close>, as the
    casts of the source take for granted.
  \<^item> A template argument \<open>T\<close> is a value of a type \<open>'T\<close> of payload type names.
    The constructor of \<open>T\<close> that \<^verbatim>\<open>std::forward<Args>(args)...\<close> selects is passed
    as a function \<open>ctor\<close> from the arguments to the payload value.
  \<^item> What the program prints is recorded as a list of events, one per
    \<^verbatim>\<open>printf\<close>, with the printed arguments.
  \<^item> A call ends in an \<open>outcome\<close>: it returns, an \<^verbatim>\<open>assert\<close> fails,
    \<^verbatim>\<open>std::terminate\<close> is called, control leaves through the unwinder, the
    allocation fails, or the behaviour is undefined.
\<close>

subsection \<open>The unwinding header and the exception objects\<close>

type_synonym addr = "64 word"

type_synonym Unwind_Reason_Code = int

text \<open>\<^verbatim>\<open>static const uint64_t my_exception_class = 0x0123456789ABCDEFull;\<close>\<close>

definition my_exception_class :: "64 word" where
  "my_exception_class = 0x0123456789ABCDEF"

text \<open>
  The value of the function pointer \<^verbatim>\<open>exception_cleanup\<close>: null, the lambda that
  \<^verbatim>\<open>my_throw<T>\<close> installs (one function per instantiation \<open>T\<close>), or a routine
  of another subsystem.
\<close>

datatype 'T cleanup_fn = Null_fn | Delete_wrapped 'T | Other_cleanup nat

text \<open>
  \<^verbatim>\<open>_Unwind_Exception\<close> is declared by \<^verbatim>\<open><unwind.h>\<close>, a platform header. The
  source uses its fields \<^verbatim>\<open>exception_class\<close> and \<^verbatim>\<open>exception_cleanup\<close>; the
  remaining fields are the two private words of the unwinder, which the
  unwinder writes while it propagates the exception.
\<close>

record 'T Unwind_Exception =
  exception_class :: "64 word"
  exception_cleanup :: "'T cleanup_fn"
  private_1 :: "64 word"
  private_2 :: "64 word"

text \<open>\<^verbatim>\<open>_Unwind_Exception header{};\<close> every field zero.\<close>

definition Unwind_Exception_zero :: "'T Unwind_Exception" where
  "Unwind_Exception_zero =
     \<lparr>exception_class = 0, exception_cleanup = Null_fn, private_1 = 0, private_2 = 0\<rparr>"

record ('T, 'ti) base_exception =
  header :: "'T Unwind_Exception"
  ty :: 'ti

record ('T, 'ti, 'b) wrapped_exception = "('T, 'ti) base_exception" +
  body :: 'b

text \<open>
  \<^verbatim>\<open>explicit base_exception(const std::type_info* ty) : ty(ty)
    { header.exception_class = my_exception_class; }\<close>
\<close>

definition base_exception_ctor :: "'ti \<Rightarrow> ('T, 'ti) base_exception" where
  "base_exception_ctor t =
     (let this = \<lparr>header = Unwind_Exception_zero, ty = t\<rparr>
      in this\<lparr>header := (header this)\<lparr>exception_class := my_exception_class\<rparr>\<rparr>)"

text \<open>
  \<^verbatim>\<open>explicit wrapped_exception(Args&&... args) :
    base_exception(&typeid(T)), body(std::forward<Args>(args)...) { }\<close>

  \<open>typeid\<close> is the type identification facility of the language, a parameter.
\<close>

definition wrapped_exception_ctor ::
  "('T \<Rightarrow> 'ti) \<Rightarrow> 'T \<Rightarrow> ('a \<Rightarrow> 'b) \<Rightarrow> 'a \<Rightarrow> ('T, 'ti, 'b) wrapped_exception" where
  "wrapped_exception_ctor typeid T ctor args =
     (let base = base_exception_ctor (typeid T)
      in \<lparr>header = header base, ty = ty base, body = ctor args\<rparr>)"

text \<open>\<^verbatim>\<open>struct test_exception { const char* what; explicit test_exception(const char* msg) : what(msg) {} };\<close>\<close>

record test_exception =
  what :: string

definition test_exception_ctor :: "string \<Rightarrow> test_exception" where
  "test_exception_ctor msg = \<lparr>what = msg\<rparr>"

subsection \<open>Program state\<close>

text \<open>
  The thread's \<^verbatim>\<open>__cxa_eh_globals\<close>. The source reads its first member only,
  \<^verbatim>\<open>caughtExceptions\<close>.
\<close>

record cxa_eh_globals =
  caughtExceptions :: addr

text \<open>
  What lives at an address: one of this program's envelopes, a
  \<^verbatim>\<open>wrapped_exception<T>\<close> together with its \<open>T\<close>, or the unwinding header of
  an exception object of another subsystem.
\<close>

datatype ('T, 'ti, 'b) object =
    Wrapped 'T "('T, 'ti, 'b) wrapped_exception"
  | Foreign "'T Unwind_Exception"

text \<open>
  The output: the three lines \<^verbatim>\<open>my_throw\<close> and its lambda print, and a line
  printed by code of a payload type.
\<close>

datatype event =
    Throwing addr
  | Failed_to_throw Unwind_Reason_Code
  | Deleting addr
  | Printed string

text \<open>
  \<open>eh_globals\<close> is what \<^verbatim>\<open>__cxa_get_globals_fast()\<close> points to: \<open>None\<close> is
  the null pointer of a thread that has not initialised its exception state.
\<close>

record ('T, 'ti, 'b) state =
  eh_globals :: "cxa_eh_globals option"
  heap :: "addr \<rightharpoonup> ('T, 'ti, 'b) object"
  stdout :: "event list"

datatype fault = Null_dereference | Invalid_access

datatype ('r, 's) outcome =
    Returns 'r 's
  | Assertion_failed string 's
  | Terminate_called 's
  | Unwinding addr 's
  | Bad_alloc 's
  | Undefined fault 's

fun outcome_state :: "('r, 's) outcome \<Rightarrow> 's" where
  "outcome_state (Returns r s) = s"
| "outcome_state (Assertion_failed m s) = s"
| "outcome_state (Terminate_called s) = s"
| "outcome_state (Unwinding h s) = s"
| "outcome_state (Bad_alloc s) = s"
| "outcome_state (Undefined f s) = s"

text \<open>
  The platform and the payload types: everything the source calls, includes or
  is instantiated with, and does not define.
  \<^item> \<open>typeid\<close>: the \<^verbatim>\<open>std::type_info\<close> of a type.
  \<^item> \<open>destructor\<close>: the destructor \<^verbatim>\<open>~T()\<close> of a payload type, run on a
    payload; what it does to the state is its own business.
  \<^item> \<open>sizeof_Unwind_Exception\<close>: \<^verbatim>\<open>sizeof(_Unwind_Exception)\<close>, a \<^verbatim>\<open>size_t\<close>.
  \<^item> \<open>operator_new\<close>: the address of the storage \<^verbatim>\<open>new\<close> obtains, \<open>None\<close>
    when the allocation fails.
  \<^item> \<open>Unwind_RaiseException\<close>: \<open>None\<close> when the unwinder takes the
    exception and control does not come back, \<open>Some code\<close> when it returns.
\<close>

record ('T, 'ti, 'b) platform =
  typeid :: "'T \<Rightarrow> 'ti"
  destructor :: "'T \<Rightarrow> 'b \<Rightarrow> ('T, 'ti, 'b) state \<Rightarrow> ('T, 'ti, 'b) state"
  sizeof_Unwind_Exception :: "64 word"
  operator_new :: "('T, 'ti, 'b) state \<Rightarrow> addr option"
  Unwind_RaiseException :: "addr \<Rightarrow> ('T, 'ti, 'b) state \<Rightarrow> Unwind_Reason_Code option"

definition cxa_get_globals_fast :: "('T, 'ti, 'b) state \<Rightarrow> cxa_eh_globals option" where
  "cxa_get_globals_fast s = eh_globals s"

definition printf :: "event \<Rightarrow> ('T, 'ti, 'b) state \<Rightarrow> ('T, 'ti, 'b) state" where
  "printf e s = s\<lparr>stdout := stdout s @ [e]\<rparr>"

text \<open>
  Reading the \<^verbatim>\<open>_Unwind_Exception\<close> at an address. The header of an envelope
  is read at the envelope's own address.
\<close>

definition read_header ::
  "('T, 'ti, 'b) state \<Rightarrow> addr \<Rightarrow> fault + 'T Unwind_Exception" where
  "read_header s p =
     (if p = 0 then Inl Null_dereference
      else (case heap s p of
              None \<Rightarrow> Inl Invalid_access
            | Some (Wrapped T w) \<Rightarrow> Inr (header w)
            | Some (Foreign h) \<Rightarrow> Inr h))"

text \<open>Reading the \<^verbatim>\<open>ty\<close> field through a \<^verbatim>\<open>base_exception*\<close>.\<close>

definition read_ty :: "('T, 'ti, 'b) state \<Rightarrow> addr \<Rightarrow> fault + 'ti" where
  "read_ty s p =
     (if p = 0 then Inl Null_dereference
      else (case heap s p of
              Some (Wrapped T w) \<Rightarrow> Inr (ty w)
            | _ \<Rightarrow> Inl Invalid_access))"

text \<open>Reading \<^verbatim>\<open>static_cast<wrapped_exception<T>*>(e)->body\<close>.\<close>

definition read_body :: "('T, 'ti, 'b) state \<Rightarrow> 'T \<Rightarrow> addr \<Rightarrow> fault + 'b" where
  "read_body s T p =
     (if p = 0 then Inl Null_dereference
      else (case heap s p of
              Some (Wrapped T' w) \<Rightarrow> if T' = T then Inr (body w) else Inl Invalid_access
            | _ \<Rightarrow> Inl Invalid_access))"

subsection \<open>my_throw\<close>

text \<open>\<^verbatim>\<open>new wrapped_exception<T>(std::forward<Args>(args)...)\<close> at the address obtained.\<close>

definition new_wrapped_exception ::
  "('T, 'ti, 'b) platform \<Rightarrow> 'T \<Rightarrow> ('a \<Rightarrow> 'b) \<Rightarrow> 'a \<Rightarrow> addr \<Rightarrow>
   ('T, 'ti, 'b) state \<Rightarrow> ('T, 'ti, 'b) state" where
  "new_wrapped_exception P T ctor args p s =
     s\<lparr>heap := (heap s)(p \<mapsto> Wrapped T (wrapped_exception_ctor (typeid P) T ctor args))\<rparr>"

text \<open>\<^verbatim>\<open>wrapped->header.exception_cleanup = f;\<close>\<close>

definition set_exception_cleanup ::
  "addr \<Rightarrow> 'T cleanup_fn \<Rightarrow> ('T, 'ti, 'b) state \<Rightarrow> ('T, 'ti, 'b) state" where
  "set_exception_cleanup p f s =
     (case heap s p of
        Some (Wrapped T w) \<Rightarrow>
          s\<lparr>heap := (heap s)(p \<mapsto> Wrapped T (w\<lparr>header := (header w)\<lparr>exception_cleanup := f\<rparr>\<rparr>))\<rparr>
      | _ \<Rightarrow> s)"

text \<open>Giving the storage at an address back: the object there is gone.\<close>

definition operator_delete :: "addr \<Rightarrow> ('T, 'ti, 'b) state \<Rightarrow> ('T, 'ti, 'b) state" where
  "operator_delete p s = s\<lparr>heap := (heap s)(p := None)\<rparr>"

text \<open>
  \<^verbatim>\<open>delete wrapped;\<close> for a \<^verbatim>\<open>wrapped_exception<T>* wrapped\<close>. Of a null pointer
  it does nothing. Of a live envelope of \<open>T\<close> it runs the destructor of the
  envelope, which runs \<^verbatim>\<open>~T()\<close> on the body (the header and the tag have
  nothing to destroy), and then gives the storage back. Of anything else it is
  undefined.
\<close>

definition delete_wrapped ::
  "('T, 'ti, 'b) platform \<Rightarrow> 'T \<Rightarrow> addr \<Rightarrow> ('T, 'ti, 'b) state \<Rightarrow>
   (unit, ('T, 'ti, 'b) state) outcome" where
  "delete_wrapped P T p s =
     (if p = 0 then Returns () s
      else (case heap s p of
              Some (Wrapped T' w) \<Rightarrow>
                if T' = T
                then Returns () (operator_delete p (destructor P T (body w) s))
                else Undefined Invalid_access s
            | _ \<Rightarrow> Undefined Invalid_access s))"

text \<open>
  The lambda of \<^verbatim>\<open>my_throw<T>\<close>:
  \<^verbatim>\<open>[](_Unwind_Reason_Code reason, _Unwind_Exception *exc) {
      (void)reason;
      printf("Deleting %p\n", exc);
      wrapped_exception<T>* wrapped = reinterpret_cast<wrapped_exception<T>*>(exc);
      delete wrapped;
    }\<close>
\<close>

definition exception_cleanup_lambda ::
  "('T, 'ti, 'b) platform \<Rightarrow> 'T \<Rightarrow> Unwind_Reason_Code \<Rightarrow> addr \<Rightarrow> ('T, 'ti, 'b) state \<Rightarrow>
   (unit, ('T, 'ti, 'b) state) outcome" where
  "exception_cleanup_lambda P T reason exc s =
     (let s1 = printf (Deleting exc) s;
          wrapped = exc
      in delete_wrapped P T wrapped s1)"

text \<open>
  \<^verbatim>\<open>template<class T, class... Args> void my_throw(Args&&... args)\<close>

  The unwinder is called with \<^verbatim>\<open>&wrapped->header\<close>, the address of the
  envelope. No branch of the function ends in \<open>Returns\<close>: its last statement is
  \<^verbatim>\<open>std::terminate()\<close>.
\<close>

definition my_throw ::
  "('T, 'ti, 'b) platform \<Rightarrow> 'T \<Rightarrow> ('a \<Rightarrow> 'b) \<Rightarrow> 'a \<Rightarrow> ('T, 'ti, 'b) state \<Rightarrow>
   (unit, ('T, 'ti, 'b) state) outcome" where
  "my_throw P T ctor args s =
     (if cxa_get_globals_fast s = None
      then Assertion_failed ''Initialize cxa globals before throwing.'' s
      else (case operator_new P s of
              None \<Rightarrow> Bad_alloc s
            | Some wrapped \<Rightarrow>
                (let s1 = new_wrapped_exception P T ctor args wrapped s;
                     s2 = set_exception_cleanup wrapped (Delete_wrapped T) s1;
                     s3 = printf (Throwing wrapped) s2
                 in (case Unwind_RaiseException P wrapped s3 of
                       None \<Rightarrow> Unwinding wrapped s3
                     | Some fail_reason \<Rightarrow>
                         Terminate_called (printf (Failed_to_throw fail_reason) s3)))))"

subsection \<open>my_catch\<close>

text \<open>\<^verbatim>\<open>static const size_t sizeof_libcxx_cxa_exception = 0x80;\<close>\<close>

definition sizeof_libcxx_cxa_exception :: "64 word" where
  "sizeof_libcxx_cxa_exception = 0x80"

text \<open>
  An out-parameter, a pointer through which the callee stores: \<open>None\<close> is the
  null pointer, \<open>Some v\<close> a pointer to a variable of the caller that holds
  \<open>v\<close>. A store through the null pointer is a fault; a store through
  \<open>Some v\<close> leaves \<open>Some v'\<close> with the value stored.
\<close>

type_synonym 'a out_param = "'a option"

text \<open>
  \<^verbatim>\<open>bool my_catch(const std::type_info** ty, base_exception** caught)\<close>

  \<open>out\<close> is the two out-parameters before the call; the result holds the
  boolean and the two out-parameters after it. The header pointer is computed in
  64-bit arithmetic. The source stores through \<^verbatim>\<open>ty\<close> first and through
  \<^verbatim>\<open>caught\<close> second, and checks neither.
\<close>

definition my_catch ::
  "('T, 'ti, 'b) platform \<Rightarrow> 'ti out_param \<times> addr out_param \<Rightarrow> ('T, 'ti, 'b) state \<Rightarrow>
   (bool \<times> 'ti out_param \<times> addr out_param, ('T, 'ti, 'b) state) outcome" where
  "my_catch P out s =
     (case cxa_get_globals_fast s of
        None \<Rightarrow> Assertion_failed ''Must call from the catch block (get_globals failed)'' s
      | Some globals \<Rightarrow>
          (let caughtExceptions' = caughtExceptions globals
           in if caughtExceptions' = 0
              then Assertion_failed ''Must call from the catch block (no caught exception)'' s
              else
                (let exception_end = caughtExceptions' + sizeof_libcxx_cxa_exception;
                     header' = exception_end - 1 * sizeof_Unwind_Exception P
                 in (case read_header s header' of
                       Inl f \<Rightarrow> Undefined f s
                     | Inr h \<Rightarrow>
                         if exception_class h \<noteq> my_exception_class
                         then Returns (False, out) s
                         else
                           (let base = header'
                            in (case read_ty s base of
                                  Inl f \<Rightarrow> Undefined f s
                                | Inr t \<Rightarrow>
                                    (case fst out of
                                       None \<Rightarrow> Undefined Null_dereference s
                                     | Some ty_before \<Rightarrow>
                                         (case snd out of
                                            None \<Rightarrow> Undefined Null_dereference s
                                          | Some caught_before \<Rightarrow>
                                              Returns (True, Some t, Some base) s))))))))"

subsection \<open>The state handed to the unwinder\<close>

text \<open>
  The three steps of \<^verbatim>\<open>my_throw\<close> before the call of
  \<^verbatim>\<open>_Unwind_RaiseException\<close>, composed: the state in which the unwinder is
  called when the storage obtained is at \<open>p\<close>.
\<close>

definition throw_state ::
  "('T, 'ti, 'b) platform \<Rightarrow> 'T \<Rightarrow> ('a \<Rightarrow> 'b) \<Rightarrow> 'a \<Rightarrow> addr \<Rightarrow>
   ('T, 'ti, 'b) state \<Rightarrow> ('T, 'ti, 'b) state" where
  "throw_state P T ctor args p s =
     printf (Throwing p)
       (set_exception_cleanup p (Delete_wrapped T) (new_wrapped_exception P T ctor args p s))"

subsection \<open>Type information of the language\<close>

text \<open>
  A declared payload type: a class with its top-level cv-qualifiers.
  \<^verbatim>\<open>test_exception\<close> and \<^verbatim>\<open>const test_exception\<close> are two declared types, and
  \<^verbatim>\<open>wrapped_exception\<close> can be instantiated with either.
\<close>

record declared_type =
  class_name :: string
  const_qualified :: bool
  volatile_qualified :: bool

text \<open>
  What the language defines for \<^verbatim>\<open>typeid(T)\<close>: top-level cv-qualifiers are
  ignored, and two \<^verbatim>\<open>std::type_info\<close> compare equal exactly when they describe
  the same type. The type information of a declared type is therefore that of
  its class.
\<close>

datatype type_info = Type_info string

definition cxx_typeid :: "declared_type \<Rightarrow> type_info" where
  "cxx_typeid T = Type_info (class_name T)"

subsection \<open>A concrete platform and concrete states\<close>

text \<open>
  A 64-bit platform: the unwinding header has 32 bytes, the storage for the
  envelope is at \<open>0x1000\<close>, and the unwinder finds a handler. Payload types
  are classes named by strings, the type information of a class is its name,
  and the destructors do nothing, as that of \<^verbatim>\<open>test_exception\<close> does.
\<close>

definition demo_platform :: "(string, string, test_exception) platform" where
  "demo_platform =
     \<lparr>typeid = (\<lambda>T. T),
      destructor = (\<lambda>T b s. s),
      sizeof_Unwind_Exception = 32,
      operator_new = (\<lambda>s. Some 4096),
      Unwind_RaiseException = (\<lambda>h s. None)\<rparr>"

text \<open>The same platform with an unwinder that returns the code 3 for every exception.\<close>

definition failing_platform :: "(string, string, test_exception) platform" where
  "failing_platform = demo_platform\<lparr>Unwind_RaiseException := (\<lambda>h s. Some 3)\<rparr>"

text \<open>
  The same platform with one more payload type, \<^verbatim>\<open>noisy_exception\<close>, a class
  with the field of \<^verbatim>\<open>test_exception\<close> and a destructor that prints a line.
\<close>

definition noisy_platform :: "(string, string, test_exception) platform" where
  "noisy_platform =
     demo_platform\<lparr>destructor :=
       (\<lambda>T b s. if T = ''noisy_exception'' then printf (Printed ''bye'') s else s)\<rparr>"

text \<open>A thread before and after \<^verbatim>\<open>__cxa_get_globals()\<close>, with nothing allocated and nothing printed.\<close>

definition uninitialised_state :: "(string, string, test_exception) state" where
  "uninitialised_state = \<lparr>eh_globals = None, heap = Map.empty, stdout = []\<rparr>"

definition initial_state :: "(string, string, test_exception) state" where
  "initial_state = \<lparr>eh_globals = Some \<lparr>caughtExceptions = 0\<rparr>, heap = Map.empty, stdout = []\<rparr>"

text \<open>The envelope of \<^verbatim>\<open>my_throw<test_exception>("You caught me!")\<close>.\<close>

definition demo_envelope :: "(string, string, test_exception) wrapped_exception" where
  "demo_envelope =
     \<lparr>header = \<lparr>exception_class = my_exception_class,
                 exception_cleanup = Delete_wrapped ''test_exception'',
                 private_1 = 0, private_2 = 0\<rparr>,
      ty = ''test_exception'',
      body = \<lparr>what = ''You caught me!''\<rparr>\<rparr>"

text \<open>The state in which the unwinder is called.\<close>

definition thrown_state :: "(string, string, test_exception) state" where
  "thrown_state =
     \<lparr>eh_globals = Some \<lparr>caughtExceptions = 0\<rparr>,
      heap = [4096 \<mapsto> Wrapped ''test_exception'' demo_envelope],
      stdout = [Throwing 4096]\<rparr>"

text \<open>
  The state inside the handler that catches the exception. The unwinder has
  written its second private word (the stack address of the handler's frame),
  and the runtime's record of \<open>0x80\<close> bytes ends where the unwinding header at
  \<open>0x1000\<close> ends, so it starts at \<open>0x1000 + 32 - 0x80\<close>.
\<close>

definition caught_envelope :: "(string, string, test_exception) wrapped_exception" where
  "caught_envelope =
     \<lparr>header = \<lparr>exception_class = my_exception_class,
                 exception_cleanup = Delete_wrapped ''test_exception'',
                 private_1 = 0, private_2 = 0x7FFFFFFFDF80\<rparr>,
      ty = ''test_exception'',
      body = \<lparr>what = ''You caught me!''\<rparr>\<rparr>"

definition handler_state :: "(string, string, test_exception) state" where
  "handler_state =
     \<lparr>eh_globals = Some \<lparr>caughtExceptions = 4000\<rparr>,
      heap = [4096 \<mapsto> Wrapped ''test_exception'' caught_envelope],
      stdout = [Throwing 4096]\<rparr>"

text \<open>
  A handler in which an exception of another subsystem is caught: its unwinding
  header, with the class of that subsystem, is the last field of the runtime's
  record at \<open>0x2000\<close>.
\<close>

definition foreign_header :: "string Unwind_Exception" where
  "foreign_header =
     \<lparr>exception_class = 0x474E5543432B2B00, exception_cleanup = Other_cleanup 0,
      private_1 = 0, private_2 = 0\<rparr>"

definition foreign_state :: "(string, string, test_exception) state" where
  "foreign_state =
     \<lparr>eh_globals = Some \<lparr>caughtExceptions = 8192\<rparr>,
      heap = [8288 \<mapsto> Foreign foreign_header],
      stdout = []\<rparr>"

text \<open>
  A state in which \<^verbatim>\<open>caughtExceptions\<close> is not null and lies \<open>0x60\<close> bytes
  below the end of the address space.
\<close>

definition wrapping_state :: "(string, string, test_exception) state" where
  "wrapping_state =
     \<lparr>eh_globals = Some \<lparr>caughtExceptions = 0xFFFFFFFFFFFFFFA0\<rparr>,
      heap = Map.empty,
      stdout = []\<rparr>"

text \<open>A handler that has caught an envelope of \<^verbatim>\<open>noisy_exception\<close>.\<close>

definition noisy_envelope :: "(string, string, test_exception) wrapped_exception" where
  "noisy_envelope =
     \<lparr>header = \<lparr>exception_class = my_exception_class,
                 exception_cleanup = Delete_wrapped ''noisy_exception'',
                 private_1 = 0, private_2 = 0x7FFFFFFFDF80\<rparr>,
      ty = ''noisy_exception'',
      body = \<lparr>what = ''You caught me!''\<rparr>\<rparr>"

definition noisy_state :: "(string, string, test_exception) state" where
  "noisy_state =
     \<lparr>eh_globals = Some \<lparr>caughtExceptions = 4000\<rparr>,
      heap = [4096 \<mapsto> Wrapped ''noisy_exception'' noisy_envelope],
      stdout = []\<rparr>"

section \<open>Facts about the functions\<close>

subsection \<open>What my_throw does\<close>

lemma my_throw_unfold:
  assumes "eh_globals s \<noteq> None" and "operator_new P s = Some p"
  shows "my_throw P T ctor a s =
     (case Unwind_RaiseException P p (throw_state P T ctor a p s) of
        None \<Rightarrow> Unwinding p (throw_state P T ctor a p s)
      | Some c \<Rightarrow> Terminate_called (printf (Failed_to_throw c) (throw_state P T ctor a p s)))"
  using assms
  by (auto simp: my_throw_def throw_state_def cxa_get_globals_fast_def Let_def
      split: option.splits)

lemma heap_throw_state:
  "heap (throw_state P T ctor a p s) p =
     Some (Wrapped T
       \<lparr>header = \<lparr>exception_class = my_exception_class, exception_cleanup = Delete_wrapped T,
                  private_1 = 0, private_2 = 0\<rparr>,
        ty = typeid P T, body = ctor a\<rparr>)"
  by (simp add: throw_state_def printf_def set_exception_cleanup_def new_wrapped_exception_def
      wrapped_exception_ctor_def base_exception_ctor_def Unwind_Exception_zero_def Let_def)

lemma stdout_throw_state: "stdout (throw_state P T ctor a p s) = stdout s @ [Throwing p]"
  by (simp add: throw_state_def printf_def set_exception_cleanup_def new_wrapped_exception_def)

lemma my_throw_Unwinding:
  assumes "my_throw P T ctor a s = Unwinding h s1"
  shows "eh_globals s \<noteq> None \<and> operator_new P s = Some h \<and> s1 = throw_state P T ctor a h s"
  using assms
  by (auto simp: my_throw_def throw_state_def cxa_get_globals_fast_def Let_def
      split: if_splits option.splits)

lemma demo_throw_state:
  "throw_state demo_platform ''test_exception'' test_exception_ctor ''You caught me!'' 4096
     initial_state = thrown_state"
  by (simp add: throw_state_def printf_def set_exception_cleanup_def new_wrapped_exception_def
      wrapped_exception_ctor_def base_exception_ctor_def Unwind_Exception_zero_def Let_def
      demo_platform_def initial_state_def thrown_state_def demo_envelope_def
      test_exception_ctor_def)

lemma demo_my_throw:
  "my_throw demo_platform ''test_exception'' test_exception_ctor ''You caught me!'' initial_state
     = Unwinding 4096 thrown_state"
proof -
  have "my_throw demo_platform ''test_exception'' test_exception_ctor ''You caught me!''
          initial_state =
        Unwinding 4096 (throw_state demo_platform ''test_exception'' test_exception_ctor
          ''You caught me!'' 4096 initial_state)"
    by (subst my_throw_unfold [where p = 4096])
      (simp_all add: demo_platform_def initial_state_def)
  then show ?thesis by (simp only: demo_throw_state)
qed

subsection \<open>What my_catch does\<close>

lemma my_catch_found:
  assumes g: "eh_globals s = Some g" and c: "caughtExceptions g \<noteq> 0"
    and e: "caughtExceptions g + sizeof_libcxx_cxa_exception - sizeof_Unwind_Exception P = e"
    and n: "e \<noteq> 0"
    and w: "heap s e = Some (Wrapped T w)"
    and k: "exception_class (header w) = my_exception_class"
  shows "my_catch P (Some t0, Some c0) s = Returns (True, Some (ty w), Some e) s"
proof -
  have "read_header s e = Inr (header w)" and "read_ty s e = Inr (ty w)"
    using n w by (simp_all add: read_header_def read_ty_def)
  then show ?thesis
    using g c k
    by (simp add: my_catch_def cxa_get_globals_fast_def Let_def e del: diff_eq_eq)
qed

lemma my_catch_Returns_True:
  assumes "my_catch P out s = Returns (True, t, e) s'"
  shows "\<exists>g. eh_globals s = Some g \<and> caughtExceptions g \<noteq> 0 \<and>
           e = Some (caughtExceptions g + sizeof_libcxx_cxa_exception
                       - sizeof_Unwind_Exception P)"
  using assms
  by (auto simp: my_catch_def cxa_get_globals_fast_def Let_def
      split: option.splits if_splits sum.splits)

lemma my_catch_not_Assertion_failed:
  assumes "eh_globals s = Some g" and "caughtExceptions g \<noteq> 0"
  shows "my_catch P out s \<noteq> Assertion_failed m s'"
  using assms
  by (auto simp: my_catch_def cxa_get_globals_fast_def Let_def
      split: sum.splits option.splits)

lemma my_catch_not_Null_dereference:
  assumes "eh_globals s = Some g" and "caughtExceptions g \<noteq> 0"
    and "caughtExceptions g + sizeof_libcxx_cxa_exception - sizeof_Unwind_Exception P \<noteq> 0"
    and "fst out \<noteq> None" and "snd out \<noteq> None"
  shows "my_catch P out s \<noteq> Undefined Null_dereference s'"
  using assms
  by (auto simp: my_catch_def cxa_get_globals_fast_def Let_def read_header_def read_ty_def
      split: option.splits sum.splits object.splits)

lemma my_catch_handler_state:
  "my_catch demo_platform (Some t0, Some c0) handler_state
     = Returns (True, Some ''test_exception'', Some 4096) handler_state"
  by (rule my_catch_found [where g = "\<lparr>caughtExceptions = 4000\<rparr>" and T = "''test_exception''"
        and w = caught_envelope, simplified caught_envelope_def, simplified])
    (simp_all add: handler_state_def demo_platform_def
      sizeof_libcxx_cxa_exception_def caught_envelope_def)

lemma forward_displacement:
  fixes c :: addr
  assumes "hs \<le> sz" and "c \<le> c + sz"
  shows "c \<le> c + (sz - hs)"
proof -
  from assms(1) have "unat (sz - hs) = unat sz - unat hs"
    by (simp add: unat_sub)
  moreover from assms(2) have "unat (c + sz) = unat c + unat sz"
    by (simp add: unat_plus_simple)
  moreover have "unat (c + sz) < 2 ^ 64"
    using unsigned_less [of "c + sz"] by simp
  ultimately have "unat c + unat (sz - hs) < 2 ^ LENGTH(64)"
    by simp
  then have "unat (c + (sz - hs)) = unat c + unat (sz - hs)"
    by (rule unat_add_lem [THEN iffD1])
  then show ?thesis
    by (simp add: word_le_nat_alt)
qed

section \<open>The claims\<close>

text \<open>
  Claim C1 (round trip). For any payload type \<open>T\<close> and constructor arguments
  \<open>a\<close>: when \<^verbatim>\<open>my_throw<T>(a)\<close> hands its envelope, at \<open>h\<close>, to the unwinder,
  and \<^verbatim>\<open>my_catch\<close> is called with two out-parameters in the handler that
  catches it, then \<^verbatim>\<open>my_catch\<close> returns true, the type tag is that of \<open>T\<close>, the
  pointer is \<open>h\<close>, and the body read through it is the \<open>T\<close> constructed from
  \<open>a\<close>.

  Entering the handler is the work of the unwinder and the C++ runtime. The
  hypotheses \<open>caught\<close> and \<open>record_end\<close> say of the state \<open>s2\<close> in the handler
  what the comments of \<^verbatim>\<open>my_catch\<close> say the runtime guarantees:
  \<^verbatim>\<open>caughtExceptions\<close> is not null and points to a record of
  \<^verbatim>\<open>sizeof_libcxx_cxa_exception\<close> bytes whose last field is the unwinding header
  that was raised. The hypotheses \<open>kept\<close> say that the envelope \<open>w1\<close> handed
  to the unwinder is still there as \<open>w2\<close> with the class, the tag and the body
  it had; the unwinder is free to have written the private words of the header.
  \<open>storage\<close> says that \<^verbatim>\<open>new\<close> did not return the null pointer.
\<close>

theorem my_throw_my_catch_round_trip:
  assumes thrown: "my_throw P T ctor a s = Unwinding h s1"
    and storage: "h \<noteq> 0"
    and caught: "eh_globals s2 = Some g" "caughtExceptions g \<noteq> 0"
    and record_end:
      "caughtExceptions g + sizeof_libcxx_cxa_exception = h + 1 * sizeof_Unwind_Exception P"
    and kept: "heap s1 h = Some (Wrapped T w1)" "heap s2 h = Some (Wrapped T w2)"
      "exception_class (header w2) = exception_class (header w1)"
      "ty w2 = ty w1" "body w2 = body w1"
  shows "my_catch P (Some t0, Some c0) s2 = Returns (True, Some (typeid P T), Some h) s2 \<and>
         read_body s2 T h = Inr (ctor a)"
proof -
  from thrown have s1: "s1 = throw_state P T ctor a h s"
    by (simp add: my_throw_Unwinding)
  from kept(1) have w1: "exception_class (header w1) = my_exception_class"
    "ty w1 = typeid P T" "body w1 = ctor a"
    by (auto simp: s1 heap_throw_state)
  have e: "caughtExceptions g + sizeof_libcxx_cxa_exception - sizeof_Unwind_Exception P = h"
    using record_end by simp
  have k: "exception_class (header w2) = my_exception_class"
    using kept(3) w1(1) by simp
  have "my_catch P (Some t0, Some c0) s2 = Returns (True, Some (ty w2), Some h) s2"
    by (rule my_catch_found [OF caught e storage kept(2) k])
  moreover have "read_body s2 T h = Inr (ctor a)"
    using storage kept(2,5) w1(3) by (simp add: read_body_def)
  ultimately show ?thesis using kept(4) w1(2) by simp
qed

text \<open>
  The instance of \<^verbatim>\<open>main\<close>: \<^verbatim>\<open>my_throw<test_exception>("You caught me!")\<close>, then
  \<^verbatim>\<open>my_catch\<close> in the handler, where the unwinder has written its second
  private word; the body's \<^verbatim>\<open>what\<close> is the text thrown.
\<close>

theorem my_throw_my_catch_round_trip_witness:
  "my_throw demo_platform ''test_exception'' test_exception_ctor ''You caught me!'' initial_state
     = Unwinding 4096 thrown_state \<and>
   (4096 :: addr) \<noteq> 0 \<and>
   eh_globals handler_state = Some \<lparr>caughtExceptions = 4000\<rparr> \<and>
   caughtExceptions \<lparr>caughtExceptions = 4000\<rparr> + sizeof_libcxx_cxa_exception
     = 4096 + 1 * sizeof_Unwind_Exception demo_platform \<and>
   heap thrown_state 4096 = Some (Wrapped ''test_exception'' demo_envelope) \<and>
   heap handler_state 4096 = Some (Wrapped ''test_exception'' caught_envelope) \<and>
   private_2 (header caught_envelope) \<noteq> private_2 (header demo_envelope) \<and>
   exception_class (header caught_envelope) = exception_class (header demo_envelope) \<and>
   ty caught_envelope = ty demo_envelope \<and>
   body caught_envelope = body demo_envelope \<and>
   my_catch demo_platform (Some [], Some 0) handler_state
     = Returns (True, Some ''test_exception'', Some 4096) handler_state \<and>
   read_body handler_state ''test_exception'' 4096 = Inr \<lparr>what = ''You caught me!''\<rparr>"
proof -
  have n: "(4096 :: addr) \<noteq> 0" by simp
  have g: "eh_globals handler_state = Some \<lparr>caughtExceptions = 4000\<rparr>"
    by (simp add: handler_state_def)
  have c: "caughtExceptions \<lparr>caughtExceptions = 4000\<rparr> \<noteq> 0" by simp
  have r: "caughtExceptions \<lparr>caughtExceptions = 4000\<rparr> + sizeof_libcxx_cxa_exception
             = 4096 + 1 * sizeof_Unwind_Exception demo_platform"
    by (simp add: sizeof_libcxx_cxa_exception_def demo_platform_def)
  have k1: "heap thrown_state 4096 = Some (Wrapped ''test_exception'' demo_envelope)"
    by (simp add: thrown_state_def)
  have k2: "heap handler_state 4096 = Some (Wrapped ''test_exception'' caught_envelope)"
    by (simp add: handler_state_def)
  have k3: "exception_class (header caught_envelope) = exception_class (header demo_envelope)"
    by (simp add: caught_envelope_def demo_envelope_def)
  have k4: "ty caught_envelope = ty demo_envelope"
    by (simp add: caught_envelope_def demo_envelope_def)
  have k5: "body caught_envelope = body demo_envelope"
    by (simp add: caught_envelope_def demo_envelope_def)
  have p: "private_2 (header caught_envelope) \<noteq> private_2 (header demo_envelope)"
    by (simp add: caught_envelope_def demo_envelope_def)
  from my_throw_my_catch_round_trip [OF demo_my_throw n g c r k1 k2 k3 k4 k5, of "[]" 0]
    demo_my_throw g r k1 k2 k3 k4 k5 p
  show ?thesis by (simp add: demo_platform_def test_exception_ctor_def)
qed

text \<open>
  Claim C2 (address of the envelope), as the code has it. When \<^verbatim>\<open>my_catch\<close>
  returns true, the pointer it returns is the currently caught pointer plus
  \<^verbatim>\<open>sizeof_libcxx_cxa_exception\<close> minus the size of one unwinding header. The
  displacement is fixed, and when the header is no larger than the runtime's
  record it is a displacement forwards: the envelope is at or above the caught
  pointer, for every caught pointer whose record of
  \<^verbatim>\<open>sizeof_libcxx_cxa_exception\<close> bytes does not run past the end of the address
  space.
\<close>

theorem my_catch_envelope_address:
  assumes "my_catch P out s = Returns (True, t, e) s'"
  shows "\<exists>g a. eh_globals s = Some g \<and> e = Some a \<and>
           a = caughtExceptions g + sizeof_libcxx_cxa_exception - sizeof_Unwind_Exception P \<and>
           (sizeof_Unwind_Exception P \<le> sizeof_libcxx_cxa_exception \<longrightarrow>
              a = caughtExceptions g + (sizeof_libcxx_cxa_exception - sizeof_Unwind_Exception P) \<and>
              (caughtExceptions g \<le> caughtExceptions g + sizeof_libcxx_cxa_exception \<longrightarrow>
                 caughtExceptions g \<le> a))"
proof -
  from my_catch_Returns_True [OF assms] obtain g where g: "eh_globals s = Some g"
    and e: "e = Some (caughtExceptions g + sizeof_libcxx_cxa_exception
                        - sizeof_Unwind_Exception P)"
    by auto
  let ?a = "caughtExceptions g + sizeof_libcxx_cxa_exception - sizeof_Unwind_Exception P"
  have a: "?a = caughtExceptions g + (sizeof_libcxx_cxa_exception - sizeof_Unwind_Exception P)"
    by simp
  have "sizeof_Unwind_Exception P \<le> sizeof_libcxx_cxa_exception \<longrightarrow>
      caughtExceptions g \<le> caughtExceptions g + sizeof_libcxx_cxa_exception \<longrightarrow>
      caughtExceptions g \<le> ?a"
    using forward_displacement [of "sizeof_Unwind_Exception P" sizeof_libcxx_cxa_exception
        "caughtExceptions g"]
    by (simp only: a) blast
  with g e a show ?thesis by blast
qed

theorem my_catch_envelope_address_witness:
  "my_catch demo_platform (Some [], Some 0) handler_state
     = Returns (True, Some ''test_exception'', Some 4096) handler_state \<and>
   eh_globals handler_state = Some \<lparr>caughtExceptions = 4000\<rparr> \<and>
   sizeof_Unwind_Exception demo_platform \<le> sizeof_libcxx_cxa_exception \<and>
   (4000 :: addr) \<le> 4000 + sizeof_libcxx_cxa_exception \<and>
   (4096 :: addr) = 4000 + (sizeof_libcxx_cxa_exception - sizeof_Unwind_Exception demo_platform) \<and>
   (4000 :: addr) \<le> 4096"
  using my_catch_envelope_address [OF my_catch_handler_state [of "[]" 0]]
  by (simp add: my_catch_handler_state)
    (simp add: handler_state_def demo_platform_def sizeof_libcxx_cxa_exception_def)

text \<open>
  Claim C2 as stated fails: with a header of 32 bytes and the caught pointer at
  4000, \<^verbatim>\<open>my_catch\<close> returns the envelope at 4096, which is above the caught
  pointer and so is not that pointer minus a non-negative offset.
\<close>

theorem my_catch_envelope_above_caught_pointer:
  "eh_globals handler_state = Some \<lparr>caughtExceptions = 4000\<rparr> \<and>
   my_catch demo_platform (Some [], Some 0) handler_state
     = Returns (True, Some ''test_exception'', Some 4096) handler_state \<and>
   \<not> (4096 :: addr) \<le> 4000"
  by (simp add: my_catch_handler_state) (simp add: handler_state_def)

text \<open>
  Claim C3 (foreign exception). When the unwinding header that \<^verbatim>\<open>my_catch\<close>
  finds carries a class other than \<^verbatim>\<open>my_exception_class\<close>, \<^verbatim>\<open>my_catch\<close> returns
  false, leaves both out-parameters as they were (nothing of the object is handed
  to the caller), and returns the state it was given: nothing is deallocated and
  nothing is printed, so the cleanup routine has not run.
\<close>

theorem my_catch_foreign_exception:
  assumes "eh_globals s = Some g" and "caughtExceptions g \<noteq> 0"
    and "read_header s (caughtExceptions g + sizeof_libcxx_cxa_exception
                          - sizeof_Unwind_Exception P) = Inr h"
    and "exception_class h \<noteq> my_exception_class"
  shows "my_catch P out s = Returns (False, out) s"
  using assms by (simp add: my_catch_def cxa_get_globals_fast_def Let_def)

theorem my_catch_foreign_exception_witness:
  "eh_globals foreign_state = Some \<lparr>caughtExceptions = 8192\<rparr> \<and>
   caughtExceptions \<lparr>caughtExceptions = 8192\<rparr> \<noteq> 0 \<and>
   read_header foreign_state (8192 + sizeof_libcxx_cxa_exception
                                - sizeof_Unwind_Exception demo_platform) = Inr foreign_header \<and>
   exception_class foreign_header \<noteq> my_exception_class \<and>
   my_catch demo_platform (Some ''unset'', Some 0) foreign_state
     = Returns (False, Some ''unset'', Some 0) foreign_state"
proof -
  have a: "eh_globals foreign_state = Some \<lparr>caughtExceptions = 8192\<rparr>"
    by (simp add: foreign_state_def)
  have b: "caughtExceptions \<lparr>caughtExceptions = 8192\<rparr> \<noteq> 0" by simp
  have c: "read_header foreign_state (caughtExceptions \<lparr>caughtExceptions = 8192\<rparr>
             + sizeof_libcxx_cxa_exception - sizeof_Unwind_Exception demo_platform)
           = Inr foreign_header"
    by (simp add: read_header_def foreign_state_def sizeof_libcxx_cxa_exception_def
        demo_platform_def)
  have d: "exception_class foreign_header \<noteq> my_exception_class"
    by (simp add: foreign_header_def my_exception_class_def)
  from my_catch_foreign_exception [OF a b c d, of "(Some ''unset'', Some 0)"] a b c d
  show ?thesis by simp
qed

text \<open>
  Claim C4 (my_throw does not return). No call of \<^verbatim>\<open>my_throw\<close> returns to its
  caller. Once the thread is initialised and the storage obtained: if
  \<^verbatim>\<open>_Unwind_RaiseException\<close> returns, whatever the code \<open>c\<close>, \<^verbatim>\<open>my_throw\<close> prints
  the failure with that code and calls \<^verbatim>\<open>std::terminate\<close>; if it does not return,
  control has left through the unwinder with the envelope.
\<close>

theorem my_throw_never_returns:
  "my_throw P T ctor a s \<noteq> Returns r s' \<and>
   (eh_globals s \<noteq> None \<and> operator_new P s = Some p \<and>
    Unwind_RaiseException P p (throw_state P T ctor a p s) = Some c \<longrightarrow>
      my_throw P T ctor a s
        = Terminate_called (printf (Failed_to_throw c) (throw_state P T ctor a p s)) \<and>
      stdout (printf (Failed_to_throw c) (throw_state P T ctor a p s))
        = stdout s @ [Throwing p, Failed_to_throw c]) \<and>
   (eh_globals s \<noteq> None \<and> operator_new P s = Some p \<and>
    Unwind_RaiseException P p (throw_state P T ctor a p s) = None \<longrightarrow>
      my_throw P T ctor a s = Unwinding p (throw_state P T ctor a p s))"
proof -
  have "my_throw P T ctor a s \<noteq> Returns r s'"
    by (simp add: my_throw_def Let_def split: option.splits)
  moreover have "stdout (printf (Failed_to_throw c) (throw_state P T ctor a p s))
        = stdout s @ [Throwing p, Failed_to_throw c]"
    by (simp add: printf_def stdout_throw_state)
  ultimately show ?thesis
    by (simp add: my_throw_unfold)
qed

theorem my_throw_never_returns_witness:
  "eh_globals initial_state \<noteq> None \<and>
   operator_new failing_platform initial_state = Some 4096 \<and>
   Unwind_RaiseException failing_platform 4096 thrown_state = Some 3 \<and>
   my_throw failing_platform ''test_exception'' test_exception_ctor ''You caught me!'' initial_state
     = Terminate_called (thrown_state\<lparr>stdout := [Throwing 4096, Failed_to_throw 3]\<rparr>)"
proof -
  have ts: "throw_state failing_platform ''test_exception'' test_exception_ctor
              ''You caught me!'' 4096 initial_state = thrown_state"
    by (simp add: throw_state_def printf_def set_exception_cleanup_def
        new_wrapped_exception_def wrapped_exception_ctor_def base_exception_ctor_def
        Unwind_Exception_zero_def Let_def failing_platform_def demo_platform_def
        initial_state_def thrown_state_def demo_envelope_def test_exception_ctor_def)
  have a: "eh_globals initial_state \<noteq> None" by (simp add: initial_state_def)
  have b: "operator_new failing_platform initial_state = Some 4096"
    by (simp add: failing_platform_def demo_platform_def)
  have c: "Unwind_RaiseException failing_platform 4096 thrown_state = Some 3"
    by (simp add: failing_platform_def demo_platform_def)
  from my_throw_never_returns [of failing_platform "''test_exception''" test_exception_ctor
      "''You caught me!''" initial_state "()" initial_state 4096 3] a b c
  show ?thesis
    by (simp add: ts printf_def) (simp add: thrown_state_def)
qed

text \<open>
  Claim C6 (the header of every envelope). Once the thread is initialised and
  the storage obtained at \<open>p\<close>, \<^verbatim>\<open>my_throw\<close> calls \<^verbatim>\<open>_Unwind_RaiseException\<close> in a
  state in which the object at \<open>p\<close> is the envelope of \<open>T\<close> whose header has the
  class \<^verbatim>\<open>0x0123456789ABCDEF\<close>, the cleanup lambda of \<open>T\<close>, and zero in its other
  fields.
\<close>

theorem my_throw_envelope_header:
  assumes "eh_globals s \<noteq> None" and "operator_new P s = Some p"
  shows "my_throw P T ctor a s =
           (case Unwind_RaiseException P p (throw_state P T ctor a p s) of
              None \<Rightarrow> Unwinding p (throw_state P T ctor a p s)
            | Some c \<Rightarrow>
                Terminate_called (printf (Failed_to_throw c) (throw_state P T ctor a p s))) \<and>
         heap (throw_state P T ctor a p s) p =
           Some (Wrapped T
             \<lparr>header = \<lparr>exception_class = 0x0123456789ABCDEF,
                        exception_cleanup = Delete_wrapped T,
                        private_1 = 0, private_2 = 0\<rparr>,
              ty = typeid P T, body = ctor a\<rparr>)"
  using my_throw_unfold [OF assms] heap_throw_state [of P T ctor a p s]
  by (simp add: my_exception_class_def)

theorem my_throw_envelope_header_witness:
  "eh_globals initial_state \<noteq> None \<and>
   operator_new demo_platform initial_state = Some 4096 \<and>
   my_throw demo_platform ''test_exception'' test_exception_ctor ''You caught me!'' initial_state
     = Unwinding 4096 thrown_state \<and>
   heap thrown_state 4096 =
     Some (Wrapped ''test_exception''
       \<lparr>header = \<lparr>exception_class = 0x0123456789ABCDEF,
                  exception_cleanup = Delete_wrapped ''test_exception'',
                  private_1 = 0, private_2 = 0\<rparr>,
        ty = ''test_exception'', body = \<lparr>what = ''You caught me!''\<rparr>\<rparr>)"
proof -
  have a: "eh_globals initial_state \<noteq> None" by (simp add: initial_state_def)
  have b: "operator_new demo_platform initial_state = Some 4096"
    by (simp add: demo_platform_def)
  have c: "Unwind_RaiseException demo_platform 4096 thrown_state = None"
    by (simp add: demo_platform_def)
  from my_throw_envelope_header [OF a b, of "''test_exception''" test_exception_ctor
      "''You caught me!''"] a b c
  show ?thesis
    by (simp add: demo_throw_state) (simp add: demo_platform_def test_exception_ctor_def)
qed

text \<open>
  Claim C7 (type tags), as the code has it. The tag an envelope records is the
  type information \<^verbatim>\<open>typeid(T)\<close> of the declared type it was instantiated with,
  whatever the constructor and its arguments. So two envelopes carry equal tags
  exactly when \<^verbatim>\<open>typeid\<close> gives their declared types the same type
  information; in particular identical declared types yield equal tags. With
  the \<^verbatim>\<open>typeid\<close> of the language, which ignores top-level cv-qualifiers, the
  tags are equal exactly when the declared types are the same class, whether
  or not they are qualified alike.
\<close>

theorem type_tags_follow_typeid:
  "(ty (wrapped_exception_ctor tid T1 ctor1 a1) = ty (wrapped_exception_ctor tid T2 ctor2 a2))
     = (tid T1 = tid T2) \<and>
   (ty (wrapped_exception_ctor tid T1 ctor1 a1) = ty (wrapped_exception_ctor tid T1 ctor2 a2)) \<and>
   (ty (wrapped_exception_ctor cxx_typeid U1 ctor3 a3)
      = ty (wrapped_exception_ctor cxx_typeid U2 ctor4 a4))
     = (class_name U1 = class_name U2)"
  by (simp add: wrapped_exception_ctor_def base_exception_ctor_def Let_def cxx_typeid_def)

text \<open>
  Claim C7 as stated fails: \<^verbatim>\<open>test_exception\<close> and \<^verbatim>\<open>const test_exception\<close> are
  distinct declared types, and the envelopes of both record the same tag.
\<close>

theorem const_payload_type_same_tag:
  "\<lparr>class_name = ''test_exception'', const_qualified = True, volatile_qualified = False\<rparr>
     \<noteq> \<lparr>class_name = ''test_exception'', const_qualified = False, volatile_qualified = False\<rparr> \<and>
   ty (wrapped_exception_ctor cxx_typeid
         \<lparr>class_name = ''test_exception'', const_qualified = True, volatile_qualified = False\<rparr>
         test_exception_ctor ''You caught me!'')
     = ty (wrapped_exception_ctor cxx_typeid
         \<lparr>class_name = ''test_exception'', const_qualified = False, volatile_qualified = False\<rparr>
         test_exception_ctor ''You caught me!'')"
  by (simp add: wrapped_exception_ctor_def base_exception_ctor_def Let_def cxx_typeid_def)

text \<open>
  Claim C8 (usage errors are assertions), as the code has it. \<^verbatim>\<open>my_throw\<close> on
  a thread that has not initialised its exception state fails its assertion in
  the state it was given, before anything is allocated; on an initialised thread
  its assertion does not fail. \<^verbatim>\<open>my_catch\<close> fails its first assertion when the
  globals pointer is null and its second when \<^verbatim>\<open>caughtExceptions\<close> is null; when
  neither is null no assertion fails. The assertions cover these two pointers
  only: \<^verbatim>\<open>my_catch\<close> dereferences no null pointer provided also the header
  pointer it computes from \<^verbatim>\<open>caughtExceptions\<close> is not null and neither
  out-parameter is the null pointer.
\<close>

theorem usage_errors_are_assertions:
  "(eh_globals s = None \<longrightarrow>
      my_throw P T ctor a s = Assertion_failed ''Initialize cxa globals before throwing.'' s) \<and>
   (eh_globals s \<noteq> None \<longrightarrow> my_throw P T ctor a s \<noteq> Assertion_failed m s') \<and>
   (eh_globals s = None \<longrightarrow>
      my_catch P out s
        = Assertion_failed ''Must call from the catch block (get_globals failed)'' s) \<and>
   (eh_globals s = Some g \<and> caughtExceptions g = 0 \<longrightarrow>
      my_catch P out s
        = Assertion_failed ''Must call from the catch block (no caught exception)'' s) \<and>
   (eh_globals s = Some g \<and> caughtExceptions g \<noteq> 0 \<longrightarrow>
      my_catch P out s \<noteq> Assertion_failed m s' \<and>
      (caughtExceptions g + sizeof_libcxx_cxa_exception - sizeof_Unwind_Exception P \<noteq> 0 \<and>
       fst out \<noteq> None \<and> snd out \<noteq> None \<longrightarrow>
         my_catch P out s \<noteq> Undefined Null_dereference s'))"
proof -
  have 1: "eh_globals s = None \<longrightarrow>
      my_throw P T ctor a s = Assertion_failed ''Initialize cxa globals before throwing.'' s"
    by (simp add: my_throw_def cxa_get_globals_fast_def)
  have 2: "eh_globals s \<noteq> None \<longrightarrow> my_throw P T ctor a s \<noteq> Assertion_failed m s'"
    by (auto simp: my_throw_def cxa_get_globals_fast_def Let_def split: option.splits)
  have 3: "eh_globals s = None \<longrightarrow>
      my_catch P out s
        = Assertion_failed ''Must call from the catch block (get_globals failed)'' s"
    by (simp add: my_catch_def cxa_get_globals_fast_def)
  have 4: "eh_globals s = Some g \<and> caughtExceptions g = 0 \<longrightarrow>
      my_catch P out s
        = Assertion_failed ''Must call from the catch block (no caught exception)'' s"
    by (simp add: my_catch_def cxa_get_globals_fast_def)
  have 5: "eh_globals s = Some g \<and> caughtExceptions g \<noteq> 0 \<longrightarrow>
      my_catch P out s \<noteq> Assertion_failed m s' \<and>
      (caughtExceptions g + sizeof_libcxx_cxa_exception - sizeof_Unwind_Exception P \<noteq> 0 \<and>
       fst out \<noteq> None \<and> snd out \<noteq> None \<longrightarrow>
         my_catch P out s \<noteq> Undefined Null_dereference s')"
    using my_catch_not_Assertion_failed my_catch_not_Null_dereference by blast
  from 1 2 3 4 5 show ?thesis by blast
qed

theorem usage_errors_are_assertions_witness:
  "eh_globals uninitialised_state = None \<and>
   my_throw demo_platform ''test_exception'' test_exception_ctor ''You caught me!''
       uninitialised_state
     = Assertion_failed ''Initialize cxa globals before throwing.'' uninitialised_state \<and>
   my_catch demo_platform (Some [], Some 0) uninitialised_state
     = Assertion_failed ''Must call from the catch block (get_globals failed)''
         uninitialised_state \<and>
   eh_globals initial_state = Some \<lparr>caughtExceptions = 0\<rparr> \<and>
   my_catch demo_platform (Some [], Some 0) initial_state
     = Assertion_failed ''Must call from the catch block (no caught exception)''
         initial_state \<and>
   my_throw demo_platform ''test_exception'' test_exception_ctor ''You caught me!'' initial_state
     \<noteq> Assertion_failed ''Initialize cxa globals before throwing.'' initial_state \<and>
   eh_globals handler_state = Some \<lparr>caughtExceptions = 4000\<rparr> \<and>
   (4000 :: addr) + sizeof_libcxx_cxa_exception - sizeof_Unwind_Exception demo_platform \<noteq> 0 \<and>
   my_catch demo_platform (Some [], Some 0) handler_state
     \<noteq> Assertion_failed ''Must call from the catch block (no caught exception)'' handler_state \<and>
   my_catch demo_platform (Some [], Some 0) handler_state
     \<noteq> Undefined Null_dereference handler_state"
proof -
  have u: "eh_globals uninitialised_state = None" by (simp add: uninitialised_state_def)
  have i: "eh_globals initial_state = Some \<lparr>caughtExceptions = 0\<rparr>"
    by (simp add: initial_state_def)
  have h: "eh_globals handler_state = Some \<lparr>caughtExceptions = 4000\<rparr>"
    by (simp add: handler_state_def)
  have z: "(4000 :: addr) + sizeof_libcxx_cxa_exception - sizeof_Unwind_Exception demo_platform
             \<noteq> 0"
    by (simp add: demo_platform_def sizeof_libcxx_cxa_exception_def)
  from
    usage_errors_are_assertions [of uninitialised_state demo_platform "''test_exception''"
      test_exception_ctor "''You caught me!''" _ _ "(Some [], Some 0)"]
    usage_errors_are_assertions [of initial_state demo_platform "''test_exception''"
      test_exception_ctor "''You caught me!''"
      "''Initialize cxa globals before throwing.''" initial_state
      "(Some [], Some 0)" "\<lparr>caughtExceptions = 0\<rparr>"]
    usage_errors_are_assertions [of handler_state demo_platform "''test_exception''"
      test_exception_ctor "''You caught me!''"
      "''Must call from the catch block (no caught exception)''" handler_state
      "(Some [], Some 0)" "\<lparr>caughtExceptions = 4000\<rparr>"]
    u i h z
  show ?thesis by simp
qed

text \<open>
  Claim C8 as stated fails: with the globals pointer and \<^verbatim>\<open>caughtExceptions\<close>
  both non-null, no assertion fails, and \<^verbatim>\<open>my_catch\<close> dereferences a null
  pointer. For \<^verbatim>\<open>caughtExceptions = 0xFFFFFFFFFFFFFFA0\<close> and a header of 32
  bytes the header pointer is \<open>0xFFFFFFFFFFFFFFA0 + 0x80 - 32 = 0\<close> in 64-bit
  arithmetic.
\<close>

theorem my_catch_null_header_pointer:
  "eh_globals wrapping_state = Some \<lparr>caughtExceptions = 0xFFFFFFFFFFFFFFA0\<rparr> \<and>
   (0xFFFFFFFFFFFFFFA0 :: addr) \<noteq> 0 \<and>
   (0xFFFFFFFFFFFFFFA0 :: addr) + sizeof_libcxx_cxa_exception
     - 1 * sizeof_Unwind_Exception demo_platform = 0 \<and>
   my_catch demo_platform (Some [], Some 0) wrapping_state
     = Undefined Null_dereference wrapping_state"
  by (simp add: my_catch_def cxa_get_globals_fast_def Let_def read_header_def
      wrapping_state_def demo_platform_def sizeof_libcxx_cxa_exception_def)

text \<open>
  Claim C9 (my_catch only reads). Whatever the outcome of \<^verbatim>\<open>my_catch\<close>, the
  state it leaves is the state it was given: the globals, the caught pointer,
  every object and the output are unchanged. When it returns, a second call in
  the state left behind, with the out-parameters as the first call left them,
  returns the same boolean and leaves the same out-parameters.
\<close>

theorem my_catch_read_only:
  "outcome_state (my_catch P out s) = s \<and>
   (my_catch P out s = Returns (found, out') s' \<longrightarrow>
      my_catch P out' s' = Returns (found, out') s')"
proof -
  have "outcome_state (my_catch P out s) = s"
    by (simp add: my_catch_def Let_def split: option.splits sum.splits)
  moreover have "my_catch P out s = Returns (found, out') s' \<longrightarrow>
      my_catch P out' s' = Returns (found, out') s'"
    by (auto simp: my_catch_def Let_def split: option.splits sum.splits if_splits)
  ultimately show ?thesis by simp
qed

theorem my_catch_read_only_witness:
  "my_catch demo_platform (Some [], Some 0) handler_state
     = Returns (True, Some ''test_exception'', Some 4096) handler_state \<and>
   outcome_state (my_catch demo_platform (Some [], Some 0) handler_state) = handler_state \<and>
   my_catch demo_platform (Some ''test_exception'', Some 4096) handler_state
     = Returns (True, Some ''test_exception'', Some 4096) handler_state"
  using my_catch_read_only [of demo_platform "(Some [], Some 0)" handler_state True
      "(Some ''test_exception'', Some 4096)" handler_state]
  by (simp add: my_catch_handler_state)

text \<open>
  Claim C10 (the cleanup lambda), as the code has it. For every \<open>T\<close>, the
  lambda that \<^verbatim>\<open>my_throw<T>\<close> installs does the same for any two reason codes.
  Called on a live envelope of \<open>T\<close> it prints the line for that address, runs
  the destructor of \<open>T\<close> on the body and gives the storage back, in that order,
  and does nothing else. When that destructor does nothing, as the one of
  \<^verbatim>\<open>test_exception\<close>, the line and the deallocation are all that has changed.
\<close>

theorem exception_cleanup_ignores_reason:
  "exception_cleanup_lambda P T reason exc s = exception_cleanup_lambda P T reason' exc s \<and>
   (exc \<noteq> 0 \<and> heap s exc = Some (Wrapped T w) \<longrightarrow>
      exception_cleanup_lambda P T reason exc s
        = Returns () (operator_delete exc (destructor P T (body w) (printf (Deleting exc) s))) \<and>
      (destructor P T (body w) (printf (Deleting exc) s) = printf (Deleting exc) s \<longrightarrow>
         exception_cleanup_lambda P T reason exc s
           = Returns ()
               (s\<lparr>heap := (heap s)(exc := None), stdout := stdout s @ [Deleting exc]\<rparr>)))"
proof -
  have "exc \<noteq> 0 \<and> heap s exc = Some (Wrapped T w) \<longrightarrow>
      exception_cleanup_lambda P T reason exc s
        = Returns () (operator_delete exc (destructor P T (body w) (printf (Deleting exc) s)))"
    by (simp add: exception_cleanup_lambda_def delete_wrapped_def printf_def Let_def)
  moreover have "operator_delete exc (printf (Deleting exc) s)
      = s\<lparr>heap := (heap s)(exc := None), stdout := stdout s @ [Deleting exc]\<rparr>"
    by (simp add: operator_delete_def printf_def)
  moreover have "exception_cleanup_lambda P T reason exc s
      = exception_cleanup_lambda P T reason' exc s"
    by (simp add: exception_cleanup_lambda_def)
  ultimately show ?thesis by auto
qed

theorem exception_cleanup_ignores_reason_witness:
  "(4096 :: addr) \<noteq> 0 \<and>
   heap handler_state 4096 = Some (Wrapped ''test_exception'' caught_envelope) \<and>
   destructor demo_platform ''test_exception'' (body caught_envelope)
       (printf (Deleting 4096) handler_state)
     = printf (Deleting 4096) handler_state \<and>
   exception_cleanup_lambda demo_platform ''test_exception'' 1 4096 handler_state
     = exception_cleanup_lambda demo_platform ''test_exception'' 0 4096 handler_state \<and>
   exception_cleanup_lambda demo_platform ''test_exception'' 1 4096 handler_state
     = Returns () \<lparr>eh_globals = Some \<lparr>caughtExceptions = 4000\<rparr>, heap = Map.empty,
                    stdout = [Throwing 4096, Deleting 4096]\<rparr>"
proof -
  have a: "heap handler_state 4096 = Some (Wrapped ''test_exception'' caught_envelope)"
    by (simp add: handler_state_def)
  have d: "destructor demo_platform ''test_exception'' (body caught_envelope)
             (printf (Deleting 4096) handler_state)
           = printf (Deleting 4096) handler_state"
    by (simp add: demo_platform_def)
  from exception_cleanup_ignores_reason [of demo_platform "''test_exception''" 1 4096
      handler_state 0 caught_envelope] a d
  show ?thesis
    by (simp add: exception_cleanup_lambda_def delete_wrapped_def operator_delete_def
        printf_def handler_state_def demo_platform_def)
qed

text \<open>
  Claim C10 as stated fails for a payload type whose destructor has an effect of
  its own: cleaning up an envelope of \<^verbatim>\<open>noisy_exception\<close> prints the line of the
  destructor after the line of the lambda, so the deallocation and the lambda's
  line are not all that can be seen.
\<close>

theorem exception_cleanup_runs_destructor:
  "heap noisy_state 4096 = Some (Wrapped ''noisy_exception'' noisy_envelope) \<and>
   exception_cleanup_lambda noisy_platform ''noisy_exception'' 1 4096 noisy_state
     = Returns () \<lparr>eh_globals = Some \<lparr>caughtExceptions = 4000\<rparr>, heap = Map.empty,
                    stdout = [Deleting 4096, Printed ''bye'']\<rparr>"
  by (simp add: exception_cleanup_lambda_def delete_wrapped_def operator_delete_def
      printf_def noisy_state_def noisy_platform_def demo_platform_def)

end
